theory Spec2Isabelle
  imports Complex_Main "HOL-Library.AList" "HOL-Library.Sublist"
begin

section \<open>Python strings and dictionaries\<close>

text \<open>
  A Python \<open>str\<close> is modelled as an Isabelle \<open>string\<close> holding its UTF-8 bytes.
  Whitespace, letter case and digits are classified as Python does for the ASCII range
  (\<open>str.isspace\<close> is true of the code points 9 to 13, 28 to 31 and 32); every byte
  above 127 is taken as a caseless, non-blank, non-digit character. The three non-ASCII
  literals of the source are the degree sign, the capital omega and the bullet.
\<close>

definition deg :: string where
  "deg = [CHR 0xC2, CHR 0xB0]"

definition omega :: string where
  "omega = [CHR 0xCE, CHR 0xA9]"

definition bullet :: string where
  "bullet = [CHR 0xE2, CHR 0x80, CHR 0xA2]"

definition is_space :: "char \<Rightarrow> bool" where
  "is_space c \<longleftrightarrow> c \<in> set [CHR 0x09, CHR 0x0A, CHR 0x0B, CHR 0x0C, CHR 0x0D,
                              CHR 0x1C, CHR 0x1D, CHR 0x1E, CHR 0x1F, CHR 0x20]"

text \<open>\<open>s.strip()\<close>\<close>

definition strip :: "string \<Rightarrow> string" where
  "strip s = rev (dropWhile is_space (rev (dropWhile is_space s)))"

definition lower_char :: "char \<Rightarrow> char" where
  "lower_char c =
     (case map_of (zip ''ABCDEFGHIJKLMNOPQRSTUVWXYZ'' ''abcdefghijklmnopqrstuvwxyz'') c
      of Some d \<Rightarrow> d | None \<Rightarrow> c)"

definition upper_char :: "char \<Rightarrow> char" where
  "upper_char c =
     (case map_of (zip ''abcdefghijklmnopqrstuvwxyz'' ''ABCDEFGHIJKLMNOPQRSTUVWXYZ'') c
      of Some d \<Rightarrow> d | None \<Rightarrow> c)"

definition is_cased :: "char \<Rightarrow> bool" where
  "is_cased c \<longleftrightarrow> c \<in> set ''ABCDEFGHIJKLMNOPQRSTUVWXYZabcdefghijklmnopqrstuvwxyz''"

text \<open>\<open>s.lower()\<close>, \<open>s.upper()\<close>, \<open>s.capitalize()\<close> and \<open>s.title()\<close>\<close>

definition lower :: "string \<Rightarrow> string" where
  "lower s = map lower_char s"

definition upper :: "string \<Rightarrow> string" where
  "upper s = map upper_char s"

definition capitalize :: "string \<Rightarrow> string" where
  "capitalize s = (case s of [] \<Rightarrow> [] | c # cs \<Rightarrow> upper_char c # lower cs)"

fun title_from :: "bool \<Rightarrow> string \<Rightarrow> string" where
  "title_from prev [] = []"
| "title_from prev (c # cs) =
     (if prev then lower_char c else upper_char c) # title_from (is_cased c) cs"

definition title :: "string \<Rightarrow> string" where
  "title s = title_from False s"

text \<open>
  \<open>s.split(sep, 1)\<close> for a one-character separator: the text before the first
  separator and, when there is a separator, the text after it. The result stands for
  the list \<open>parts\<close>; its second component is \<open>parts[1]\<close>, present iff
  \<open>len(parts) > 1\<close>.
\<close>

definition split1 :: "char \<Rightarrow> string \<Rightarrow> string \<times> string option" where
  "split1 sep s =
     (case dropWhile (\<lambda>c. c \<noteq> sep) s of
        [] \<Rightarrow> (s, None)
      | _ # rest \<Rightarrow> (takeWhile (\<lambda>c. c \<noteq> sep) s, Some rest))"

text \<open>\<open>s.split(sep)\<close> for a one-character separator: never an empty list.\<close>

fun split_on :: "char \<Rightarrow> string \<Rightarrow> string list" where
  "split_on sep [] = [[]]"
| "split_on sep (c # cs) =
     (if c = sep then [] # split_on sep cs
      else (case split_on sep cs of
              [] \<Rightarrow> [[c]]
            | p # ps \<Rightarrow> (c # p) # ps))"

text \<open>\<open>sep.join(xs)\<close>\<close>

fun join :: "string \<Rightarrow> string list \<Rightarrow> string" where
  "join sep [] = []"
| "join sep [x] = x"
| "join sep (x # y # ys) = x @ sep @ join sep (y # ys)"

text \<open>\<open>t in s\<close> on strings and \<open>s.startswith(t)\<close>\<close>

definition contains :: "string \<Rightarrow> string \<Rightarrow> bool" where
  "contains s t \<longleftrightarrow> sublist t s"

definition startswith :: "string \<Rightarrow> string \<Rightarrow> bool" where
  "startswith s t \<longleftrightarrow> prefix t s"

text \<open>\<open>s.isdigit()\<close> and \<open>s.replace('.', '', 1)\<close>\<close>

definition isdigit :: "string \<Rightarrow> bool" where
  "isdigit s \<longleftrightarrow> s \<noteq> [] \<and> (\<forall>c \<in> set s. c \<in> set ''0123456789'')"

fun remove_first_dot :: "string \<Rightarrow> string" where
  "remove_first_dot [] = []"
| "remove_first_dot (c # cs) = (if c = CHR ''.'' then cs else c # remove_first_dot cs)"

text \<open>
  A Python \<open>dict\<close> keeps its keys in insertion order, and the comparator iterates
  over dictionaries; so a dictionary is an association list. \<open>d[k] = v\<close> is
  \<^const>\<open>AList.update\<close>: the value is replaced in place when the key is present and
  the pair is appended otherwise. \<open>d.get(k)\<close> is \<^const>\<open>map_of\<close>.
\<close>

type_synonym ('k, 'v) dict = "('k \<times> 'v) list"

definition keys :: "('k, 'v) dict \<Rightarrow> 'k list" where
  "keys d = map fst d"

definition dict_values :: "('k, 'v) dict \<Rightarrow> 'v list" where
  "dict_values d = map snd d"


section \<open>Unit normalizer (\<open>tools/transformers.py\<close>)\<close>

datatype UnitType =
  TEMPERATURE | RESISTANCE | VOLTAGE | CURRENT | POWER | TIME | FREQUENCY
  | CAPACITANCE | INDUCTANCE | VOLUME | MAGNETIC

record UnitStandard =
  symbol :: string
  display :: string
  unit_type :: UnitType
  suffixes :: "(string, string) dict"

text \<open>The constructor call of the source, with the default of the field \<open>suffixes\<close>.\<close>

definition mk_UnitStandard :: "string \<Rightarrow> string \<Rightarrow> UnitType \<Rightarrow> UnitStandard" where
  "mk_UnitStandard s d t =
     \<lparr>symbol = s, display = d, unit_type = t,
      suffixes = [(''maximum'', ''max''), (''minimum'', ''min''),
                  (''typical'', ''typ''), (''nominal'', ''nom'')]\<rparr>"

definition STANDARD_UNITS :: "(string, UnitStandard) dict" where
  "STANDARD_UNITS =
    [(deg @ ''C'', mk_UnitStandard (deg @ ''C'') (deg @ ''C'') TEMPERATURE),
     (deg @ ''F'', mk_UnitStandard (deg @ ''F'') (deg @ ''F'') TEMPERATURE),
     (''ohm'', mk_UnitStandard omega omega RESISTANCE),
     (''ohms'', mk_UnitStandard omega omega RESISTANCE),
     (''Ohm'', mk_UnitStandard omega omega RESISTANCE),
     (''Ohms'', mk_UnitStandard omega omega RESISTANCE),
     (''V'', mk_UnitStandard ''V'' ''V'' VOLTAGE),
     (''VDC'', mk_UnitStandard ''VDC'' ''VDC'' VOLTAGE),
     (''VAC'', mk_UnitStandard ''VAC'' ''VAC'' VOLTAGE),
     (''Volts'', mk_UnitStandard ''V'' ''V'' VOLTAGE),
     (''A'', mk_UnitStandard ''A'' ''A'' CURRENT),
     (''Amp'', mk_UnitStandard ''A'' ''A'' CURRENT),
     (''Amps'', mk_UnitStandard ''A'' ''A'' CURRENT),
     (''mA'', mk_UnitStandard ''mA'' ''mA'' CURRENT),
     (''W'', mk_UnitStandard ''W'' ''W'' POWER),
     (''Watt'', mk_UnitStandard ''W'' ''W'' POWER),
     (''Watts'', mk_UnitStandard ''W'' ''W'' POWER),
     (''ms'', mk_UnitStandard ''ms'' ''ms'' TIME),
     (''msec'', mk_UnitStandard ''ms'' ''ms'' TIME),
     (''msecs'', mk_UnitStandard ''ms'' ''ms'' TIME),
     (''mSeconds'', mk_UnitStandard ''ms'' ''ms'' TIME),
     (''millisecond'', mk_UnitStandard ''ms'' ''ms'' TIME),
     (''milliseconds'', mk_UnitStandard ''ms'' ''ms'' TIME),
     (''Milliseconds'', mk_UnitStandard ''ms'' ''ms'' TIME),
     (''MILLISECONDS'', mk_UnitStandard ''ms'' ''ms'' TIME),
     (''CC'', mk_UnitStandard ''cc'' ''cc'' VOLUME),
     (''cc'', mk_UnitStandard ''cc'' ''cc'' VOLUME),
     (''cubic centimeter'', mk_UnitStandard ''cc'' ''cc'' VOLUME),
     (''cubic centimeters'', mk_UnitStandard ''cc'' ''cc'' VOLUME),
     (''CUBIC CENTIMETERS'', mk_UnitStandard ''cc'' ''cc'' VOLUME),
     (''Cubic Centimeters'', mk_UnitStandard ''cc'' ''cc'' VOLUME),
     (''Cubic centimeters'', mk_UnitStandard ''cc'' ''cc'' VOLUME),
     (''pF'', mk_UnitStandard ''pF'' ''pF'' CAPACITANCE),
     (''picofarad'', mk_UnitStandard ''pF'' ''pF'' CAPACITANCE),
     (''picofarads'', mk_UnitStandard ''pF'' ''pF'' CAPACITANCE),
     (''mH'', mk_UnitStandard ''mH'' ''mH'' INDUCTANCE),
     (''millihenry'', mk_UnitStandard ''mH'' ''mH'' INDUCTANCE),
     (''millihenries'', mk_UnitStandard ''mH'' ''mH'' INDUCTANCE),
     (''AT'', mk_UnitStandard ''AT'' ''AT'' MAGNETIC),
     (''Ampere Turn'', mk_UnitStandard ''AT'' ''AT'' MAGNETIC),
     (''Ampere Turns'', mk_UnitStandard ''AT'' ''AT'' MAGNETIC),
     (''ampere turn'', mk_UnitStandard ''AT'' ''AT'' MAGNETIC),
     (''ampere turns'', mk_UnitStandard ''AT'' ''AT'' MAGNETIC),
     (''AMPERE TURNS'', mk_UnitStandard ''AT'' ''AT'' MAGNETIC)]"

text \<open>
  The loop over the case variations: the first variant that is a key of the table wins
  (a \<open>UnitStandard\<close> object is always truthy).
\<close>

fun first_standard :: "string list \<Rightarrow> UnitStandard option" where
  "first_standard [] = None"
| "first_standard (variant # rest) =
     (case map_of STANDARD_UNITS variant of
        Some standard \<Rightarrow> Some standard
      | None \<Rightarrow> first_standard rest)"

definition variations :: "string \<Rightarrow> string list" where
  "variations base_unit =
     [base_unit, lower base_unit, upper base_unit, capitalize base_unit, title base_unit]"

definition standardize_unit :: "string option \<Rightarrow> string option" where
  "standardize_unit unit =
     (case unit of
        None \<Rightarrow> None
      | Some u \<Rightarrow>
          if u = [] then None
          else
            let parts = split1 CHR ''-'' u;
                base_unit = strip (strip (fst parts));
                suffix = map_option (\<lambda>p. strip (strip p)) (snd parts)
            in (case first_standard (variations base_unit) of
                  None \<Rightarrow> Some u
                | Some standard \<Rightarrow>
                    (case suffix of
                       None \<Rightarrow> Some (display standard)
                     | Some sfx \<Rightarrow>
                         if sfx = [] then Some (display standard)
                         else
                           let suffix_lower = lower sfx
                           in if suffix_lower \<in> set [''maximum'', ''minimum'', ''nominal'', ''typical'']
                              then Some (display standard @ '' - '' @ take 3 suffix_lower)
                              else Some (display standard @ '' - '' @ sfx))))"

definition format_display_value :: "string \<Rightarrow> string option \<Rightarrow> string" where
  "format_display_value v unit =
     (case unit of
        None \<Rightarrow> v
      | Some u \<Rightarrow>
          if u = [] then v
          else if contains v ''to'' then v @ '' '' @ u
          else v @ '' '' @ u)"


section \<open>Document types (\<open>types/pdf.py\<close>)\<close>

text \<open>
  \<open>PDFSpecification\<close> stores the unit and the value; \<open>display_value\<close> is a computed
  field. \<open>PDFCategory\<close> and \<open>PDFSection\<close> wrap one dictionary each. Of \<open>PDFContent\<close>
  the fields \<open>metadata\<close> and \<open>pages\<close> are left out: no function below reads them.
\<close>

record PDFSpecification =
  spec_unit :: "string option"
  spec_value :: string

definition display_value :: "PDFSpecification \<Rightarrow> string" where
  "display_value sp = format_display_value (spec_value sp) (spec_unit sp)"

datatype PDFCategory = PDFCategory (subcategories: "(string, PDFSpecification) dict")

datatype PDFSection = PDFSection (categories: "(string, PDFCategory) dict")

record PDFContent =
  raw_text :: string
  model_number :: "string option"
  sections :: "(string, PDFSection) dict"

text \<open>\<open>PDFContent.get_specification\<close>: a missing key at any level gives \<open>None\<close>.\<close>

definition get_specification ::
  "PDFContent \<Rightarrow> string \<Rightarrow> string \<Rightarrow> string \<Rightarrow> PDFSpecification option" where
  "get_specification content section category subcategory =
     (case map_of (sections content) section of
        None \<Rightarrow> None
      | Some sec \<Rightarrow>
          (case map_of (categories sec) category of
             None \<Rightarrow> None
           | Some cat \<Rightarrow> map_of (subcategories cat) subcategory))"


section \<open>Table parser and tree builder (\<open>tools/pdf_processor.py\<close>)\<close>

text \<open>
  The processor's fields \<open>section_patterns\<close> and \<open>section_order\<close> at their default
  values: \<open>section_patterns['electrical']\<close> and so on, and \<open>section_order[0]\<close> is
  \<open>'electrical'\<close>.
\<close>

definition electrical_pattern :: string where
  "electrical_pattern = ''electrical specifications''"

definition magnetic_pattern :: string where
  "magnetic_pattern = ''magnetic specifications''"

definition physical_pattern :: string where
  "physical_pattern = ''physical/operational specifications''"

definition electrical_terms :: "string list" where
  "electrical_terms = [''power'', ''voltage'', ''current'', ''resistance'', ''capacitance'',
                       ''temperature'', ''electrical'']"

definition magnetic_terms :: "string list" where
  "magnetic_terms = [''pull - in'', ''test coil'', ''magnetic'']"

definition physical_terms :: "string list" where
  "physical_terms = [''capsule'', ''contact material'', ''operate time'', ''release time'',
                     ''physical'', ''operational'']"

text \<open>\<open>any(term in category_lower for term in terms)\<close>\<close>

definition any_term_in :: "string list \<Rightarrow> string \<Rightarrow> bool" where
  "any_term_in terms category_lower = list_ex (\<lambda>term. contains category_lower term) terms"

text \<open>
  The closure \<open>get_section_for_category\<close>; the variable \<open>current_section\<close> of the
  enclosing function is its first argument.
\<close>

definition get_section_for_category :: "string option \<Rightarrow> string \<Rightarrow> string" where
  "get_section_for_category current_section category =
     (let category_lower = lower category
      in if any_term_in electrical_terms category_lower then electrical_pattern
         else if any_term_in magnetic_terms category_lower then magnetic_pattern
         else if any_term_in physical_terms category_lower then physical_pattern
         else (case current_section of
                 None \<Rightarrow> electrical_pattern
               | Some cs \<Rightarrow> if cs = [] then electrical_pattern else cs))"

text \<open>\<open>[str(cell).strip() if cell else "" for cell in row]\<close>\<close>

definition clean_row :: "string list \<Rightarrow> string list" where
  "clean_row row = map (\<lambda>cell. if cell = [] then [] else strip cell) row"

text \<open>\<open>any(xs)\<close> on a list of strings\<close>

definition any_nonempty :: "string list \<Rightarrow> bool" where
  "any_nonempty xs = list_ex (\<lambda>x. x \<noteq> []) xs"

type_synonym specs = "(string, (string, (string, PDFSpecification) dict) dict) dict"

text \<open>\<open>if k not in d: d[k] = v\<close>\<close>

definition setdefault :: "'k \<Rightarrow> 'v \<Rightarrow> ('k, 'v) dict \<Rightarrow> ('k, 'v) dict" where
  "setdefault k v d = (if k \<in> set (keys d) then d else d @ [(k, v)])"

record parse_state =
  specs_of :: specs
  current_category :: "string option"
  current_section :: "string option"

text \<open>
  One pass of the row loop. The nested stores \<open>specs[s][c] = ...\<close> are written with
  \<^const>\<open>AList.map_entry\<close>, which changes the value under a key that is present; the
  keys are present wherever the source indexes, since the same iteration has just
  registered them. No statement of the loop body can raise.
\<close>

definition process_row :: "parse_state \<Rightarrow> string list \<Rightarrow> parse_state" where
  "process_row st row =
     (let row_data = clean_row row
      in if \<not> any_nonempty row_data then st
         else
           (case row_data of
              [] \<Rightarrow> st
            | cell0 # _ \<Rightarrow>
                let category0 = (if cell0 \<noteq> [] then Some cell0 else current_category st);
                    subcategory = (if length row_data > 1 \<and> row_data ! 1 \<noteq> []
                                   then row_data ! 1 else []);
                    category = (if (category0 = None \<or> category0 = Some []) \<and> subcategory \<noteq> []
                                then current_category st else category0);
                    st1 = (case category of
                             None \<Rightarrow> st
                           | Some c \<Rightarrow>
                               if c = [] then st
                               else
                                 let section_name = get_section_for_category (current_section st) c;
                                     specs1 = setdefault section_name [] (specs_of st);
                                     specs2 = AList.map_entry section_name (setdefault c []) specs1
                                 in \<lparr>specs_of = specs2, current_category = Some c,
                                     current_section = Some section_name\<rparr>)
                in if length row_data > 3
                   then
                     let raw_unit = (if row_data ! 2 \<noteq> [] then Some (strip (row_data ! 2)) else None);
                         v = strip (row_data ! 3)
                     in (case (category, current_section st1) of
                           (Some c, Some cs) \<Rightarrow>
                             if c \<noteq> [] \<and> cs \<noteq> []
                             then
                               let specs3 = AList.map_entry cs (setdefault c []) (specs_of st1);
                                   unit = standardize_unit raw_unit;
                                   spec = \<lparr>spec_unit = unit, spec_value = v\<rparr>
                               in st1\<lparr>specs_of :=
                                      AList.map_entry cs
                                        (AList.map_entry c (AList.update subcategory spec)) specs3\<rparr>
                             else st1
                         | _ \<Rightarrow> st1)
                   else st1))"

text \<open>\<open>len(first_row) >= 3 and first_row[0] and any(first_row[-2:])\<close>\<close>

definition is_first_row_data :: "string list \<Rightarrow> bool" where
  "is_first_row_data first_row \<longleftrightarrow>
     length first_row \<ge> 3 \<and> first_row ! 0 \<noteq> []
     \<and> any_nonempty (drop (length first_row - 2) first_row)"

definition is_features_header :: "string list \<Rightarrow> bool" where
  "is_features_header first_row \<longleftrightarrow>
     length first_row = 2 \<and> contains (first_row ! 0) ''Features''
     \<and> contains (first_row ! 1) ''Advantages''"

definition parse_table_to_specs :: "string list list \<Rightarrow> specs" where
  "parse_table_to_specs table =
     (case table of
        [] \<Rightarrow> []
      | row0 # later_rows \<Rightarrow>
          let first_row = clean_row row0
          in if is_features_header first_row then []
             else
               let rows_to_process = (if is_first_row_data first_row then table else later_rows)
               in specs_of (foldl process_row
                    \<lparr>specs_of = [], current_category = None, current_section = None\<rparr>
                    rows_to_process))"

text \<open>
  \<open>_process_specification_tables\<close>: for every table, every section of its parse is
  registered, and every category of the parse is stored under the section by assignment.
\<close>

definition store_category ::
  "string \<Rightarrow> (string, PDFSection) dict \<Rightarrow> string \<times> (string, PDFSpecification) dict
   \<Rightarrow> (string, PDFSection) dict" where
  "store_category section_name secs entry =
     AList.map_entry section_name
       (\<lambda>sec. PDFSection (AList.update (fst entry) (PDFCategory (snd entry)) (categories sec)))
       secs"

definition store_section ::
  "(string, PDFSection) dict \<Rightarrow> string \<times> (string, (string, PDFSpecification) dict) dict
   \<Rightarrow> (string, PDFSection) dict" where
  "store_section secs entry =
     foldl (store_category (fst entry)) (setdefault (fst entry) (PDFSection []) secs) (snd entry)"

definition store_table :: "(string, PDFSection) dict \<Rightarrow> string list list \<Rightarrow> (string, PDFSection) dict" where
  "store_table secs table = foldl store_section secs (parse_table_to_specs table)"

definition process_specification_tables :: "string list list list \<Rightarrow> (string, PDFSection) dict" where
  "process_specification_tables tables = foldl store_table [] tables"


section \<open>Comparison types (\<open>types/comparison.py\<close>, \<open>types/differences.py\<close>)\<close>

text \<open>
  The constructors of the pydantic classes validate their arguments; a failed validation
  raises \<open>ValidationError\<close>. \<open>max\<close> and \<open>min\<close> of an empty sequence raise
  \<open>ValueError\<close>. These are the exceptions that can leave the comparator.
\<close>

datatype error = ValidationError | ValueError

record SpecificationValue =
  sv_unit :: "string option"
  sv_value :: string
  sv_display_value :: string

text \<open>\<open>value: str = Field(..., min_length=1)\<close>\<close>

definition mk_SpecificationValue ::
  "string \<Rightarrow> string option \<Rightarrow> string \<Rightarrow> error + SpecificationValue" where
  "mk_SpecificationValue v u dv =
     (if length v < 1 then Inl ValidationError
      else Inr \<lparr>sv_unit = u, sv_value = v, sv_display_value = dv\<rparr>)"

record ComparisonSpecification =
  cs_category :: string
  cs_specification :: string
  cs_values :: "(string, SpecificationValue) dict"
  has_differences :: bool

record ComparisonFeature =
  cf_text :: string
  cf_models :: "(string, bool) dict"




record Difference =
  d_model :: string
  d_category :: string
  d_subcategory :: "string option"
  d_specification :: string
  d_difference :: string
  d_unit :: "string option"
  d_values :: "(string, string) dict"


section \<open>Comparator (\<open>tools/compare_processor.py\<close>)\<close>

text \<open>
  The builtins \<open>float\<close>, \<open>abs\<close> and \<open>repr\<close> of a float are parameters of the
  comparator: \<open>'f\<close> stands for the floats that \<open>float\<close> returns on the strings
  that pass the numeric test, with their order.
\<close>

record 'f builtins =
  to_float :: "string \<Rightarrow> 'f"
  float_abs :: "'f \<Rightarrow> 'f"
  float_repr :: "'f \<Rightarrow> string"

text \<open>
  \<open>max(xs, key=k)\<close> and \<open>min(xs)\<close>: the first of the maximal (minimal) elements;
  \<open>ValueError\<close> on an empty sequence.
\<close>

fun max_from :: "('a \<Rightarrow> 'k::linorder) \<Rightarrow> 'a \<Rightarrow> 'a list \<Rightarrow> 'a" where
  "max_from k best [] = best"
| "max_from k best (x # xs) = max_from k (if k best < k x then x else best) xs"

fun min_from :: "('a \<Rightarrow> 'k::linorder) \<Rightarrow> 'a \<Rightarrow> 'a list \<Rightarrow> 'a" where
  "min_from k best [] = best"
| "min_from k best (x # xs) = min_from k (if k x < k best then x else best) xs"

definition py_max :: "('a \<Rightarrow> 'k::linorder) \<Rightarrow> 'a list \<Rightarrow> error + 'a" where
  "py_max k xs = (case xs of [] \<Rightarrow> Inl ValueError | x # rest \<Rightarrow> Inr (max_from k x rest))"

definition py_min :: "('a \<Rightarrow> 'k::linorder) \<Rightarrow> 'a list \<Rightarrow> error + 'a" where
  "py_min k xs = (case xs of [] \<Rightarrow> Inl ValueError | x # rest \<Rightarrow> Inr (min_from k x rest))"

type_synonym models = "(string, PDFContent) dict"

text \<open>
  \<open>_collect_model_data\<close>. The call \<open>pdf_processor.get_content\<close> reads files; it is a
  parameter that gives \<open>None\<close> where the call raises (the loop catches every exception).
\<close>

definition collect_step :: "(string \<Rightarrow> PDFContent option) \<Rightarrow> models \<Rightarrow> string \<Rightarrow> models" where
  "collect_step get_content ms model_num =
     (case get_content model_num of
        None \<Rightarrow> ms
      | Some result \<Rightarrow>
          let model_name = (case model_number result of
                              None \<Rightarrow> model_num
                            | Some m \<Rightarrow> if m = [] then model_num else m)
          in AList.update model_name result ms)"

definition collect_model_data :: "(string \<Rightarrow> PDFContent option) \<Rightarrow> string list \<Rightarrow> models" where
  "collect_model_data get_content model_numbers = foldl (collect_step get_content) [] model_numbers"

subsection \<open>Features and advantages\<close>

text \<open>The loop that joins wrapped lines to their bullet: state \<open>(processed_items, current_item)\<close>.\<close>

definition item_step :: "string list \<times> string \<Rightarrow> string \<Rightarrow> string list \<times> string" where
  "item_step st line =
     (let processed_items = fst st; current_item = snd st
      in if startswith line bullet \<or> startswith line ''-''
         then (if current_item \<noteq> [] then (processed_items @ [current_item], line)
               else (processed_items, line))
         else (if current_item \<noteq> [] then (processed_items, current_item @ '' '' @ line)
               else (processed_items, line)))"

definition split_items :: "string \<Rightarrow> string list" where
  "split_items v =
     (let lines = map strip (filter (\<lambda>line. strip line \<noteq> []) (split_on CHR 0x0A v));
          st = foldl item_step ([], []) lines
      in if snd st \<noteq> [] then fst st @ [snd st] else fst st)"

text \<open>\<open>{name: name == model_name for name in model_numbers}\<close>\<close>

definition models_dict :: "string list \<Rightarrow> string \<Rightarrow> (string, bool) dict" where
  "models_dict model_numbers model_name =
     foldl (\<lambda>d name. AList.update name (name = model_name) d) [] model_numbers"

text \<open>The inner loop over \<open>features\<close> that stops at the first entry with the item's text.\<close>

fun mark_present :: "string \<Rightarrow> string \<Rightarrow> ComparisonFeature list \<Rightarrow> ComparisonFeature list" where
  "mark_present item model_name [] = []"
| "mark_present item model_name (feature # rest) =
     (if cf_text feature = item
      then feature\<lparr>cf_models := AList.update model_name True (cf_models feature)\<rparr> # rest
      else feature # mark_present item model_name rest)"

text \<open>State of the merger: \<open>(features, seen_texts)\<close>.\<close>

definition feature_step ::
  "string list \<Rightarrow> string \<Rightarrow> ComparisonFeature list \<times> string set \<Rightarrow> string
   \<Rightarrow> ComparisonFeature list \<times> string set" where
  "feature_step model_numbers model_name st item =
     (let features = fst st; seen_texts = snd st
      in if item \<in> seen_texts
         then (mark_present item model_name features, seen_texts)
         else (features @ [\<lparr>cf_text = item, cf_models = models_dict model_numbers model_name\<rparr>],
               insert item seen_texts))"

definition feature_model_step ::
  "models \<Rightarrow> string list \<Rightarrow> string \<Rightarrow> ComparisonFeature list \<times> string set \<Rightarrow> string
   \<Rightarrow> ComparisonFeature list \<times> string set" where
  "feature_model_step ms model_numbers feature_type st model_name =
     (case map_of ms model_name of
        None \<Rightarrow> st
      | Some model \<Rightarrow>
          (case map_of (sections model) ''Features_And_Advantages'' of
             None \<Rightarrow> st
           | Some section \<Rightarrow>
               (case map_of (categories section) feature_type of
                  None \<Rightarrow> st
                | Some category \<Rightarrow>
                    (case map_of (subcategories category) [] of
                       None \<Rightarrow> st
                     | Some spec \<Rightarrow>
                         if spec_value spec = [] then st
                         else foldl (feature_step model_numbers model_name) st
                                (split_items (spec_value spec))))))"

definition process_feature_type ::
  "models \<Rightarrow> string list \<Rightarrow> string \<Rightarrow> ComparisonFeature list" where
  "process_feature_type ms model_numbers feature_type =
     fst (foldl (feature_model_step ms model_numbers feature_type) ([], {}) model_numbers)"



subsection \<open>Specifications and differences\<close>

type_synonym combination = "string \<times> string \<times> string"

type_synonym spec_sections = "(string, ComparisonSpecification list) dict"

text \<open>
  First pass of \<open>_process_specifications\<close>: the state is
  \<open>(sections, spec_combinations, seen_combinations)\<close>.
\<close>

type_synonym scan_state = "spec_sections \<times> combination list \<times> combination set"

definition scan_spec :: "string \<Rightarrow> string \<Rightarrow> scan_state \<Rightarrow> string \<Rightarrow> scan_state" where
  "scan_spec section_name category_name st spec_name =
     (case st of (secs, spec_combinations, seen_combinations) \<Rightarrow>
        let combination = (section_name, category_name, spec_name)
        in if combination \<notin> seen_combinations
           then (secs, spec_combinations @ [combination], insert combination seen_combinations)
           else st)"

definition scan_category :: "string \<Rightarrow> scan_state \<Rightarrow> string \<times> PDFCategory \<Rightarrow> scan_state" where
  "scan_category section_name st entry =
     foldl (scan_spec section_name (fst entry)) st (keys (subcategories (snd entry)))"

definition scan_section :: "scan_state \<Rightarrow> string \<times> PDFSection \<Rightarrow> scan_state" where
  "scan_section st entry =
     (if fst entry \<in> set [''Features_And_Advantages'', ''Diagram''] then st
      else
        (case st of (secs, spec_combinations, seen_combinations) \<Rightarrow>
           foldl (scan_category (fst entry))
             (setdefault (fst entry) [] secs, spec_combinations, seen_combinations)
             (categories (snd entry))))"

definition scan_model :: "models \<Rightarrow> scan_state \<Rightarrow> string \<Rightarrow> scan_state" where
  "scan_model ms st name =
     (case map_of ms name of
        None \<Rightarrow> st
      | Some model \<Rightarrow> foldl scan_section st (sections model))"

definition scan_models :: "models \<Rightarrow> string list \<Rightarrow> scan_state" where
  "scan_models ms model_numbers = foldl (scan_model ms) ([], [], {}) model_numbers"

text \<open>\<open>_get_spec_value\<close>\<close>

definition get_spec_value ::
  "PDFContent \<Rightarrow> string \<Rightarrow> string \<Rightarrow> string \<Rightarrow> PDFSpecification option" where
  "get_spec_value model section_name category_name spec_name =
     get_specification model section_name category_name spec_name"

text \<open>
  The loop that fills \<open>values\<close> for one combination. A specification object is always
  truthy, so \<open>if spec\<close> tests for \<open>None\<close>. Building the \<open>SpecificationValue\<close>
  fails on an empty value string.
\<close>

fun collect_values ::
  "models \<Rightarrow> combination \<Rightarrow> (string, SpecificationValue) dict \<Rightarrow> string list
   \<Rightarrow> error + (string, SpecificationValue) dict" where
  "collect_values ms comb vals [] = Inr vals"
| "collect_values ms comb vals (name # rest) =
     (case map_of ms name of
        None \<Rightarrow> collect_values ms comb vals rest
      | Some model \<Rightarrow>
          (case get_spec_value model (fst comb) (fst (snd comb)) (snd (snd comb)) of
             None \<Rightarrow> collect_values ms comb vals rest
           | Some spec \<Rightarrow>
               (case mk_SpecificationValue (spec_value spec) (spec_unit spec) (display_value spec) of
                  Inl e \<Rightarrow> Inl e
                | Inr sv \<Rightarrow> collect_values ms comb (AList.update name sv vals) rest)))"

text \<open>\<open>v.value.replace('.','',1).isdigit()\<close>\<close>

definition is_numeric :: "string \<Rightarrow> bool" where
  "is_numeric v = isdigit (remove_first_dot v)"

datatype 'f pyval = PyFloat 'f | PyStr string

fun is_float :: "'f pyval \<Rightarrow> bool" where
  "is_float (PyFloat _) = True"
| "is_float (PyStr _) = False"

text \<open>
  The body of \<open>if has_differences\<close>, for the non-empty \<open>values\<close> with first item
  \<open>first\<close>. In the numeric branch every entry of \<open>all_values\<close> is the float of the
  value at its position, so \<open>max(all_values)\<close> and \<open>min(all_values)\<close> are taken over
  these floats.
\<close>

definition make_difference ::
  "('f::linorder) builtins \<Rightarrow> combination \<Rightarrow> (string, SpecificationValue) dict
   \<Rightarrow> error + Difference" where
  "make_difference B comb vals =
     (case vals of
        [] \<Rightarrow> Inl ValueError
      | first # _ \<Rightarrow>
          let all_values = map (\<lambda>v. if is_numeric (sv_value v) then PyFloat (to_float B (sv_value v))
                                     else PyStr (sv_value v)) (dict_values vals);
              described =
                (if list_all is_float all_values
                 then
                   (case (py_max (\<lambda>x. float_abs B (to_float B (sv_value (snd x)))) vals,
                          py_max id (map (\<lambda>v. to_float B (sv_value v)) (dict_values vals)),
                          py_min id (map (\<lambda>v. to_float B (sv_value v)) (dict_values vals))) of
                      (Inr extreme, Inr mx, Inr mn) \<Rightarrow>
                        Inr (fst extreme,
                             ''Value of '' @ float_repr B mx @ '' vs '' @ float_repr B mn)
                    | _ \<Rightarrow> Inl ValueError)
                 else
                   let extreme_model = fst first;
                       other_values = map (\<lambda>kv. sv_value (snd kv))
                                        (filter (\<lambda>kv. fst kv \<noteq> extreme_model) vals)
                   in Inr (extreme_model,
                           ''Value of '' @ sv_value (snd first) @ '' vs '' @ join '', '' other_values))
          in (case described of
                Inl e \<Rightarrow> Inl e
              | Inr (extreme_model, difference_desc) \<Rightarrow>
                  Inr \<lparr>d_model = extreme_model, d_category = fst comb,
                       d_subcategory = Some (fst (snd comb)), d_specification = snd (snd comb),
                       d_difference = difference_desc, d_unit = sv_unit (snd first),
                       d_values = map (\<lambda>kv. (fst kv, sv_value (snd kv))) vals\<rparr>))"

text \<open>The specification entry appended to \<open>sections[section_name]\<close> for non-empty \<open>values\<close>.\<close>

definition make_specification ::
  "combination \<Rightarrow> (string, SpecificationValue) dict \<Rightarrow> ComparisonSpecification" where
  "make_specification comb vals =
     (let unique_values = set (map sv_value (dict_values vals))
      in \<lparr>cs_category = fst (snd comb), cs_specification = snd (snd comb), cs_values = vals,
          has_differences = (card unique_values > 1)\<rparr>)"

text \<open>One pass of the second loop: state \<open>(sections, differences)\<close>.\<close>

definition process_combination ::
  "('f::linorder) builtins \<Rightarrow> models \<Rightarrow> string list \<Rightarrow> spec_sections \<times> Difference list
   \<Rightarrow> combination \<Rightarrow> error + spec_sections \<times> Difference list" where
  "process_combination B ms model_numbers st comb =
     (case collect_values ms comb [] model_numbers of
        Inl e \<Rightarrow> Inl e
      | Inr vals \<Rightarrow>
          if vals = [] then Inr st
          else
            let spec = make_specification comb vals;
                secs = AList.map_entry (fst comb) (\<lambda>specs. specs @ [spec]) (fst st)
            in if has_differences spec
               then (case make_difference B comb vals of
                       Inl e \<Rightarrow> Inl e
                     | Inr d \<Rightarrow> Inr (secs, snd st @ [d]))
               else Inr (secs, snd st))"

fun process_combinations ::
  "('f::linorder) builtins \<Rightarrow> models \<Rightarrow> string list \<Rightarrow> spec_sections \<times> Difference list
   \<Rightarrow> combination list \<Rightarrow> error + spec_sections \<times> Difference list" where
  "process_combinations B ms model_numbers st [] = Inr st"
| "process_combinations B ms model_numbers st (comb # rest) =
     (case process_combination B ms model_numbers st comb of
        Inl e \<Rightarrow> Inl e
      | Inr st' \<Rightarrow> process_combinations B ms model_numbers st' rest)"

definition process_specifications ::
  "('f::linorder) builtins \<Rightarrow> models \<Rightarrow> string list
   \<Rightarrow> error + spec_sections \<times> Difference list" where
  "process_specifications B ms model_numbers =
     (case scan_models ms model_numbers of
        (secs, spec_combinations, seen_combinations) \<Rightarrow>
          process_combinations B ms model_numbers (secs, []) spec_combinations)"

subsection \<open>The comparison call\<close>






section \<open>Auxiliary notions for the statements\<close>

text \<open>The display strings of the unit table, and the suffixes that are abbreviated.\<close>

definition displays :: "string list" where
  "displays = [deg @ ''C'', deg @ ''F'', omega, ''V'', ''VDC'', ''VAC'', ''A'', ''mA'',
               ''W'', ''ms'', ''cc'', ''pF'', ''mH'', ''AT'']"

definition std_suffixes :: "string list" where
  "std_suffixes = [''maximum'', ''minimum'', ''nominal'', ''typical'']"


text \<open>Reading a category of the builder's section map and of one table's parse.\<close>

definition lookup_category :: "(string, PDFSection) dict \<Rightarrow> string \<Rightarrow> string \<Rightarrow> PDFCategory option" where
  "lookup_category secs s c =
     (case map_of secs s of None \<Rightarrow> None | Some sec \<Rightarrow> map_of (categories sec) c)"

definition parsed_category ::
  "specs \<Rightarrow> string \<Rightarrow> string \<Rightarrow> (string, PDFSpecification) dict option" where
  "parsed_category sp s c = (case map_of sp s of None \<Rightarrow> None | Some cats \<Rightarrow> map_of cats c)"

text \<open>A parse is a dictionary of dictionaries: no key occurs twice.\<close>

definition wf_specs :: "specs \<Rightarrow> bool" where
  "wf_specs sp \<longleftrightarrow> distinct (keys sp) \<and> list_all (\<lambda>e. distinct (keys (snd e))) sp"




text \<open>
  A decimal reading of the float builtins, to instantiate the parameters: the float of a
  numeral is its exact value, and \<open>repr\<close> prints the integer part, a point and the
  fractional digits (\<open>0\<close> when there are none, at most 17). On the numerals \<open>24\<close> and
  \<open>30\<close> this is what CPython computes: \<open>24.0\<close> and \<open>30.0\<close>.
\<close>

definition digit_value :: "char \<Rightarrow> nat" where
  "digit_value c = (case map_of (zip ''0123456789'' [0, 1, 2, 3, 4, 5, 6, 7, 8, 9]) c of
                      Some d \<Rightarrow> d | None \<Rightarrow> 0)"

definition digits_value :: "string \<Rightarrow> nat" where
  "digits_value s = foldl (\<lambda>n c. 10 * n + digit_value c) 0 s"

definition dec_float :: "string \<Rightarrow> rat" where
  "dec_float s =
     of_nat (digits_value (remove_first_dot s))
       / 10 ^ length (drop 1 (dropWhile (\<lambda>c. c \<noteq> CHR ''.'') s))"

definition digit_char :: "nat \<Rightarrow> char" where
  "digit_char d = ''0123456789'' ! (d mod 10)"

fun show_nat :: "nat \<Rightarrow> string" where
  "show_nat n = (if n < 10 then [digit_char n] else show_nat (n div 10) @ [digit_char n])"

declare show_nat.simps [simp del]

fun frac_digits :: "nat \<Rightarrow> rat \<Rightarrow> string" where
  "frac_digits 0 f = []"
| "frac_digits (Suc n) f =
     (if f = 0 then []
      else let d = nat \<lfloor>f * 10\<rfloor> in digit_char d # frac_digits n (f * 10 - of_nat d))"

definition dec_repr :: "rat \<Rightarrow> string" where
  "dec_repr r =
     show_nat (nat \<lfloor>r\<rfloor>) @ ''.'' @
       (let fd = frac_digits 17 (r - of_int \<lfloor>r\<rfloor>) in if fd = [] then ''0'' else fd)"

definition decimal_builtins :: "rat builtins" where
  "decimal_builtins = \<lparr>to_float = dec_float, float_abs = abs, float_repr = dec_repr\<rparr>"

text \<open>A document with one specification: \<open>Voltage\<close>, no subcategory, unit \<open>V\<close>.\<close>

definition voltage_doc :: "string \<Rightarrow> PDFContent" where
  "voltage_doc v =
     \<lparr>raw_text = [], model_number = None,
      sections = [(''electrical specifications'',
                   PDFSection [(''Voltage'',
                     PDFCategory [('''', \<lparr>spec_unit = Some ''V'', spec_value = v\<rparr>)])])]\<rparr>"


text \<open>A document whose only content is a features block.\<close>

definition features_doc :: "string \<Rightarrow> PDFContent" where
  "features_doc txt =
     \<lparr>raw_text = [], model_number = None,
      sections = [(''Features_And_Advantages'',
                   PDFSection [(''features'',
                     PDFCategory [('''', \<lparr>spec_unit = None, spec_value = txt\<rparr>)])])]\<rparr>"

text \<open>The invariant of the merger: \<open>seen_texts\<close> is the set of the texts of \<open>features\<close>,
  and no text occurs twice.\<close>

definition merger_inv :: "ComparisonFeature list \<times> string set \<Rightarrow> bool" where
  "merger_inv st \<longleftrightarrow> snd st = set (map cf_text (fst st)) \<and> distinct (map cf_text (fst st))"

text \<open>The items a requested model contributes to the merger, and those of all of them.\<close>

definition model_items :: "models \<Rightarrow> string \<Rightarrow> string \<Rightarrow> string list" where
  "model_items ms feature_type model_name =
     (case map_of ms model_name of
        None \<Rightarrow> []
      | Some model \<Rightarrow>
          (case map_of (sections model) ''Features_And_Advantages'' of
             None \<Rightarrow> []
           | Some section \<Rightarrow>
               (case map_of (categories section) feature_type of
                  None \<Rightarrow> []
                | Some category \<Rightarrow>
                    (case map_of (subcategories category) [] of
                       None \<Rightarrow> []
                     | Some spec \<Rightarrow> split_items (spec_value spec)))))"

definition merger_items :: "models \<Rightarrow> string list \<Rightarrow> string \<Rightarrow> string list" where
  "merger_items ms model_numbers feature_type =
     concat (map (model_items ms feature_type) model_numbers)"








section \<open>Properties of the unit normalizer\<close>

text \<open>
  C10. An empty unit string is an absent unit at the interface of the normalizer:
  \<open>standardize_unit\<close> of the empty string is \<open>None\<close>, and \<open>format_display_value\<close>
  of any value with the empty unit is the value itself, as with the unit \<open>None\<close>.
\<close>

theorem empty_unit_is_absent:
  "standardize_unit (Some []) = None
   \<and> format_display_value v (Some []) = v
   \<and> format_display_value v (Some []) = format_display_value v None"
  by (simp add: standardize_unit_def format_display_value_def)

subsection \<open>Idempotence\<close>

lemma strip_idem: "strip (strip s) = strip s"
proof -
  define t where "t = dropWhile is_space s"
  define u where "u = rev (dropWhile is_space (rev t))"
  have u_prefix: "\<exists>w. t = u @ w \<and> (\<forall>c \<in> set w. is_space c)"
  proof -
    have "rev t = takeWhile is_space (rev t) @ dropWhile is_space (rev t)" by simp
    then have "t = rev (dropWhile is_space (rev t)) @ rev (takeWhile is_space (rev t))"
      by (metis rev_append rev_rev_ident)
    moreover have "\<forall>c \<in> set (rev (takeWhile is_space (rev t))). is_space c"
      by (auto dest: set_takeWhileD)
    ultimately show ?thesis unfolding u_def by blast
  qed
  have t_head: "t = [] \<or> \<not> is_space (hd t)"
    unfolding t_def by (metis hd_dropWhile)
  have "dropWhile is_space u = u"
  proof (cases u)
    case Nil then show ?thesis by simp
  next
    case (Cons a v)
    with u_prefix have "hd t = a" "t \<noteq> []" by auto
    with t_head have "\<not> is_space a" by auto
    with Cons show ?thesis by simp
  qed
  moreover have "rev (dropWhile is_space (rev u)) = u"
    unfolding u_def by simp
  ultimately show ?thesis
    unfolding strip_def t_def[symmetric] u_def[symmetric] by simp
qed

lemma strip_space_cons: "is_space c \<Longrightarrow> strip (c # s) = strip s"
  by (simp add: strip_def)

lemma strip_snoc_space:
  assumes "is_space c"
  shows "strip (s @ [c]) = strip s"
proof (cases "\<forall>x \<in> set s. is_space x")
  case True
  then have a: "dropWhile is_space s = []" by (induction s) auto
  from True assms have b: "dropWhile is_space (s @ [c]) = []" by (induction s) auto
  show ?thesis by (simp only: strip_def a b)
next
  case False
  then obtain x where "x \<in> set s" "\<not> is_space x" by blast
  then have "dropWhile is_space (s @ [c]) = dropWhile is_space s @ [c]"
    by (rule dropWhile_append1)
  with assms show ?thesis by (simp add: strip_def)
qed

lemma STANDARD_UNITS_display:
  "map_of STANDARD_UNITS k = Some st \<Longrightarrow> display st \<in> set displays"
  by (drule map_of_SomeD) (auto simp: STANDARD_UNITS_def displays_def mk_UnitStandard_def)

lemma first_standard_display:
  "first_standard vs = Some st \<Longrightarrow> display st \<in> set displays"
  by (induction vs) (auto split: option.splits dest: STANDARD_UNITS_display)



lemma display_shape:
  "d \<in> set displays \<Longrightarrow> d \<noteq> [] \<and> CHR ''-'' \<notin> set d \<and> strip d = d"
  by (auto simp: displays_def deg_def omega_def strip_def is_space_def)

lemma display_lookup:
  "d \<in> set displays \<Longrightarrow> map_option display (first_standard (variations d)) \<in> {None, Some d}"
  apply (simp only: displays_def list.set insert_iff empty_iff)
  apply (elim disjE FalseE)
  apply (simp_all add: variations_def STANDARD_UNITS_def mk_UnitStandard_def deg_def omega_def
    lower_def upper_def capitalize_def title_def lower_char_def upper_char_def is_cased_def)
  done

lemma split1_no_sep: "sep \<notin> set d \<Longrightarrow> split1 sep d = (d, None)"
proof -
  assume "sep \<notin> set d"
  then have "dropWhile (\<lambda>c. c \<noteq> sep) d = []" by (induction d) auto
  then show ?thesis by (simp only: split1_def list.case)
qed

lemma split1_display_suffix:
  assumes "sep \<notin> set d" and "c \<noteq> sep"
  shows "split1 sep (d @ c # sep # s) = (d @ [c], Some s)"
proof -
  from assms have a: "dropWhile (\<lambda>x. x \<noteq> sep) (d @ r) = dropWhile (\<lambda>x. x \<noteq> sep) r" for r
    by (induction d) auto
  from assms have b: "takeWhile (\<lambda>x. x \<noteq> sep) (d @ r) = d @ takeWhile (\<lambda>x. x \<noteq> sep) r" for r
    by (induction d) auto
  from assms(2) show ?thesis by (simp add: split1_def a b)
qed

lemma standardize_display:
  assumes "d \<in> set displays"
  shows "standardize_unit (Some d) = Some d"
proof -
  from display_shape[OF assms] have s: "d \<noteq> []" "CHR ''-'' \<notin> set d" "strip d = d" by auto
  from display_lookup[OF assms] s show ?thesis
    by (auto simp: standardize_unit_def split1_no_sep split: option.splits)
qed

lemma standardize_display_suffix:
  assumes "d \<in> set displays" and "strip s = s" and "s \<noteq> []"
    and "lower s \<notin> set std_suffixes"
  shows "standardize_unit (Some (d @ '' - '' @ s)) = Some (d @ '' - '' @ s)"
proof -
  from display_shape[OF assms(1)] have sh: "d \<noteq> []" "CHR ''-'' \<notin> set d" "strip d = d" by auto
  have sp: "is_space CHR '' ''" by (simp add: is_space_def)
  have p: "split1 CHR ''-'' (d @ CHR '' '' # CHR ''-'' # CHR '' '' # s)
             = (d @ [CHR '' ''], Some (CHR '' '' # s))"
    by (rule split1_display_suffix[OF sh(2)]) simp
  have b: "strip (strip (d @ [CHR '' ''])) = d"
    using strip_snoc_space[OF sp, of d] sh(3) by simp
  have f: "strip (strip (CHR '' '' # s)) = s"
    using strip_space_cons[OF sp, of s] assms(2) by simp
  from display_lookup[OF assms(1)] assms(3,4) show ?thesis
    by (auto simp: standardize_unit_def p b f std_suffixes_def Let_def split: option.splits)
qed

lemma abbrev_ok:
  "sl \<in> set std_suffixes \<Longrightarrow>
     strip (take 3 sl) = take 3 sl \<and> take 3 sl \<noteq> [] \<and> lower (take 3 sl) \<notin> set std_suffixes"
  by (auto simp: std_suffixes_def strip_def is_space_def lower_def lower_char_def)

text \<open>
  C6. \<open>standardize_unit\<close> is idempotent. The statement holds for every argument, so
  in particular for every unit string whose base unit has a match in the table: the result
  of a match is a display string of the table, alone or followed by \<open>" - "\<close> and a
  stripped suffix that is not one of the four abbreviated words, and on such a string the
  normalizer changes nothing.
\<close>

theorem standardize_unit_idempotent:
  "standardize_unit (standardize_unit x) = standardize_unit x"
proof (cases x)
  case None
  then show ?thesis by (simp add: standardize_unit_def)
next
  case (Some u)
  show ?thesis
  proof (cases "u = []")
    case True
    with Some show ?thesis by (simp add: standardize_unit_def)
  next
    case False
    define base_unit where "base_unit = strip (strip (fst (split1 CHR ''-'' u)))"
    define suffix where "suffix = map_option (\<lambda>p. strip (strip p)) (snd (split1 CHR ''-'' u))"
    show ?thesis
    proof (cases "first_standard (variations base_unit)")
      case None
      with Some False have "standardize_unit x = Some u"
        by (simp add: standardize_unit_def base_unit_def Let_def)
      with Some show ?thesis by simp
    next
      case (Some st)
      then have d: "display st \<in> set displays" by (rule first_standard_display)
      consider (plain) "suffix = None \<or> suffix = Some []"
        | (abbr) sfx where "suffix = Some sfx" "sfx \<noteq> []" "lower sfx \<in> set std_suffixes"
        | (other) sfx where "suffix = Some sfx" "sfx \<noteq> []" "lower sfx \<notin> set std_suffixes"
        by (cases suffix) auto
      then show ?thesis
      proof cases
        case plain
        with Some \<open>x = Some u\<close> False have "standardize_unit x = Some (display st)"
          by (auto simp: standardize_unit_def base_unit_def[symmetric] suffix_def[symmetric] Let_def)
        with standardize_display[OF d] show ?thesis by simp
      next
        case abbr
        with Some \<open>x = Some u\<close> False
        have "standardize_unit x = Some (display st @ '' - '' @ take 3 (lower sfx))"
          by (simp add: standardize_unit_def base_unit_def[symmetric] suffix_def[symmetric] Let_def
              std_suffixes_def)
        with standardize_display_suffix[OF d, of "take 3 (lower sfx)"] abbrev_ok[OF abbr(3)]
        show ?thesis by simp
      next
        case other
        from other(1) have "strip sfx = sfx"
          by (auto simp: suffix_def strip_idem)
        moreover from other Some \<open>x = Some u\<close> False
        have "standardize_unit x = Some (display st @ '' - '' @ sfx)"
          by (simp add: standardize_unit_def base_unit_def[symmetric] suffix_def[symmetric] Let_def
              std_suffixes_def)
        ultimately show ?thesis
          using standardize_display_suffix[OF d, of sfx] other by simp
      qed
    qed
  qed
qed


section \<open>Dictionary lemmas\<close>

lemma in_keys_iff: "k \<in> set (keys d) \<longleftrightarrow> map_of d k \<noteq> None"
  by (simp add: keys_def map_of_eq_None_iff)

lemma keys_setdefault: "set (keys (setdefault k v d)) = insert k (set (keys d))"
  by (auto simp: setdefault_def keys_def)

lemma distinct_setdefault: "distinct (keys d) \<Longrightarrow> distinct (keys (setdefault k v d))"
  by (auto simp: setdefault_def keys_def)

lemma map_of_setdefault:
  "map_of (setdefault k v d) = (if k \<in> set (keys d) then map_of d else (map_of d)(k \<mapsto> v))"
proof (cases "k \<in> set (keys d)")
  case True
  then show ?thesis by (simp add: setdefault_def)
next
  case False
  then have "map_of d k = None" by (simp add: keys_def map_of_eq_None_iff)
  then have "[k \<mapsto> v] ++ map_of d = (map_of d)(k \<mapsto> v)"
    by (auto simp: fun_eq_iff map_add_def split: option.splits)
  with False show ?thesis by (simp add: setdefault_def)
qed


lemma keys_update: "set (keys (AList.update k v d)) = insert k (set (keys d))"
  by (auto simp: keys_def dom_update)

lemma distinct_keys_update: "distinct (keys d) \<Longrightarrow> distinct (keys (AList.update k v d))"
  by (simp add: keys_def distinct_update)

lemma distinct_keys_map_entry: "distinct (keys d) \<Longrightarrow> distinct (keys (AList.map_entry k f d))"
  by (simp add: keys_def distinct_map_entry)

lemma list_all_map_entry:
  "list_all P d \<Longrightarrow> (\<And>v. P (k, v) \<Longrightarrow> P (k, f v)) \<Longrightarrow> list_all P (AList.map_entry k f d)"
  by (induction d) auto


section \<open>Properties of the table parser\<close>

text \<open>
  C7. The table \<open>[["Voltage","","V","24"], ["","Max","V","30"]]\<close> parses to one section,
  the electrical one, with the one category \<open>Voltage\<close> and its two subcategories: the
  empty one with value \<open>24\<close> and unit \<open>V\<close>, and \<open>Max\<close> with value \<open>30\<close> and unit
  \<open>V\<close>. The first row counts as data, and the second row takes its category from the
  first.
\<close>

theorem parse_voltage_table:
  "parse_table_to_specs [[''Voltage'', '''', ''V'', ''24''], ['''', ''Max'', ''V'', ''30'']]
   = [(''electrical specifications'',
       [(''Voltage'', [('''', \<lparr>spec_unit = Some ''V'', spec_value = ''24''\<rparr>),
                       (''Max'', \<lparr>spec_unit = Some ''V'', spec_value = ''30''\<rparr>)])])]"
  by code_simp

subsection \<open>Section inference\<close>







subsection \<open>Merging the tables of a document\<close>

lemma wf_setdefault: "wf_specs sp \<Longrightarrow> wf_specs (setdefault s [] sp)"
  by (auto simp: wf_specs_def distinct_setdefault setdefault_def keys_def)

lemma wf_map_entry:
  "wf_specs sp \<Longrightarrow> (\<And>cats. distinct (keys cats) \<Longrightarrow> distinct (keys (f cats))) \<Longrightarrow>
     wf_specs (AList.map_entry s f sp)"
  unfolding wf_specs_def
  by (auto intro!: list_all_map_entry distinct_keys_map_entry)

lemma wf_process_row: "wf_specs (specs_of st) \<Longrightarrow> wf_specs (specs_of (process_row st row))"
  unfolding process_row_def Let_def
  by (auto split: list.splits option.splits
      intro!: wf_map_entry wf_setdefault distinct_setdefault distinct_keys_map_entry distinct_keys_update)

lemma wf_foldl_process_row:
  "wf_specs (specs_of st) \<Longrightarrow> wf_specs (specs_of (foldl process_row st rows))"
  by (induction rows arbitrary: st) (auto simp: wf_process_row)

lemma wf_parse_table: "wf_specs (parse_table_to_specs table)"
proof -
  have init: "wf_specs (specs_of \<lparr>specs_of = [], current_category = None, current_section = None\<rparr>)"
    by (simp add: wf_specs_def keys_def)
  have empty: "wf_specs []" by (simp add: wf_specs_def keys_def)
  show ?thesis
    unfolding parse_table_to_specs_def Let_def
    using wf_foldl_process_row[OF init] empty
    by (simp split: list.splits)
qed

lemma lookup_store_category:
  "lookup_category (store_category sn secs (c, subs)) s c' =
     (if s = sn \<and> c' = c \<and> sn \<in> set (keys secs) then Some (PDFCategory subs)
      else lookup_category secs s c')"
  by (auto simp: lookup_category_def store_category_def map_of_map_entry update_conv' keys_def
      map_of_eq_None_iff[symmetric] simp del: map_of_eq_None_iff split: option.splits)

lemma keys_store_category: "keys (store_category sn secs e) = keys secs"
  unfolding keys_def store_category_def by (induction secs) auto

lemma lookup_foldl_store_category:
  "sn \<in> set (keys secs) \<Longrightarrow> distinct (keys cats) \<Longrightarrow>
   lookup_category (foldl (store_category sn) secs cats) s c' =
     (if s = sn then (case map_of cats c' of Some subs \<Rightarrow> Some (PDFCategory subs)
                                           | None \<Rightarrow> lookup_category secs s c')
      else lookup_category secs s c')"
proof (induction cats arbitrary: secs)
  case Nil
  then show ?case by simp
next
  case (Cons e cats)
  obtain c subs where e: "e = (c, subs)" by (cases e)
  from Cons.prems have d: "distinct (keys cats)" and nin: "c \<notin> set (keys cats)"
    by (auto simp: keys_def e)
  from nin have none: "map_of cats c = None" by (simp add: keys_def map_of_eq_None_iff)
  have k: "sn \<in> set (keys (store_category sn secs e))"
    using Cons.prems(1) by (simp add: keys_store_category)
  show ?case
    using Cons.IH[OF k d] Cons.prems(1) none
    by (auto simp: e lookup_store_category split: option.splits)
qed

lemma lookup_setdefault_section:
  "lookup_category (setdefault sn (PDFSection []) secs) s c = lookup_category secs s c"
  by (auto simp: lookup_category_def map_of_setdefault in_keys_iff split: option.splits)

lemma lookup_store_section:
  "distinct (keys cats) \<Longrightarrow>
   lookup_category (store_section secs (sn, cats)) s c' =
     (if s = sn then (case map_of cats c' of Some subs \<Rightarrow> Some (PDFCategory subs)
                                           | None \<Rightarrow> lookup_category secs s c')
      else lookup_category secs s c')"
  unfolding store_section_def
  by (simp add: lookup_foldl_store_category keys_setdefault lookup_setdefault_section
      split: option.splits)

lemma lookup_foldl_store_section:
  "wf_specs sp \<Longrightarrow>
   lookup_category (foldl store_section secs sp) s c =
     (case parsed_category sp s c of Some subs \<Rightarrow> Some (PDFCategory subs)
                                    | None \<Rightarrow> lookup_category secs s c)"
proof (induction sp arbitrary: secs)
  case Nil
  then show ?case by (simp add: parsed_category_def)
next
  case (Cons e sp)
  obtain sn cats where e: "e = (sn, cats)" by (cases e)
  from Cons.prems have w: "wf_specs sp" and d: "distinct (keys cats)" and nin: "sn \<notin> set (keys sp)"
    by (auto simp: wf_specs_def keys_def e)
  from nin have none: "map_of sp sn = None" by (simp add: keys_def map_of_eq_None_iff)
  show ?case
    using Cons.IH[OF w, of "store_section secs e"] none
    by (auto simp: e lookup_store_section[OF d] parsed_category_def split: option.splits)
qed

text \<open>
  C2, as the claim states it, fails. Two tables produce the category \<open>Voltage\<close> of the
  electrical section: the first with the empty subcategory, the second with the
  subcategory \<open>Max\<close>. The merged section map holds \<open>Max\<close> alone: the subcategory of
  the first table is lost.
\<close>

theorem tables_union_counterexample:
  "parsed_category (parse_table_to_specs [[''Voltage'', '''', ''V'', ''24'']])
       ''electrical specifications'' ''Voltage''
     = Some [('''', \<lparr>spec_unit = Some ''V'', spec_value = ''24''\<rparr>)]
   \<and> parsed_category (parse_table_to_specs [[''Voltage'', ''Max'', ''V'', ''30'']])
       ''electrical specifications'' ''Voltage''
     = Some [(''Max'', \<lparr>spec_unit = Some ''V'', spec_value = ''30''\<rparr>)]
   \<and> lookup_category
       (process_specification_tables
          [[[''Voltage'', '''', ''V'', ''24'']], [[''Voltage'', ''Max'', ''V'', ''30'']]])
       ''electrical specifications'' ''Voltage''
     = Some (PDFCategory [(''Max'', \<lparr>spec_unit = Some ''V'', spec_value = ''30''\<rparr>)])"
  by code_simp

text \<open>
  C2, amended. The builder stores a category by assignment, so the last table wins:
  after one more table \<open>t\<close>, a (section, category) pair that \<open>t\<close> produces holds
  exactly the subcategory map of \<open>t\<close>, and every other pair holds what it held before.
\<close>

theorem tables_last_wins:
  "lookup_category (process_specification_tables (tables @ [t])) s c =
     (case parsed_category (parse_table_to_specs t) s c of
        Some subs \<Rightarrow> Some (PDFCategory subs)
      | None \<Rightarrow> lookup_category (process_specification_tables tables) s c)"
  unfolding process_specification_tables_def
  by (simp add: store_table_def lookup_foldl_store_section[OF wf_parse_table])


section \<open>Properties of the comparator\<close>

subsection \<open>Merging features\<close>

lemma mark_present_texts: "map cf_text (mark_present item m fs) = map cf_text fs"
  by (induction fs) auto

lemma mark_present_flag:
  "item \<in> set (map cf_text fs) \<Longrightarrow>
     \<exists>f \<in> set (mark_present item m fs). cf_text f = item \<and> map_of (cf_models f) m = Some True"
  by (induction fs) (auto simp: update_conv')

lemma feature_step_inv:
  assumes "merger_inv st"
  shows "merger_inv (feature_step mn m st item)"
proof (cases "item \<in> snd st")
  case True
  then have "feature_step mn m st item = (mark_present item m (fst st), snd st)"
    by (simp add: feature_step_def)
  with assms show ?thesis
    by (simp add: merger_inv_def mark_present_texts del: set_map)
next
  case False
  then have "feature_step mn m st item
      = (fst st @ [\<lparr>cf_text = item, cf_models = models_dict mn m\<rparr>], insert item (snd st))"
    by (simp add: feature_step_def)
  with assms False show ?thesis
    by (simp add: merger_inv_def)
qed

lemma foldl_feature_step_inv:
  "merger_inv st \<Longrightarrow> merger_inv (foldl (feature_step mn m) st items)"
  by (induction items arbitrary: st) (auto simp: feature_step_inv)

lemma feature_model_step_inv:
  "merger_inv st \<Longrightarrow> merger_inv (feature_model_step ms mn ft st name)"
  by (auto simp: feature_model_step_def foldl_feature_step_inv split: option.splits)

lemma foldl_feature_model_step_inv:
  "merger_inv st \<Longrightarrow> merger_inv (foldl (feature_model_step ms mn ft) st names)"
  by (induction names arbitrary: st) (auto simp: feature_model_step_inv)

lemma split_items_empty: "split_items [] = []"
  by (simp add: split_items_def strip_def)

lemma feature_model_step_items:
  "feature_model_step ms mn ft st name = foldl (feature_step mn name) st (model_items ms ft name)"
  by (simp add: feature_model_step_def model_items_def split_items_empty split: option.splits)

lemma feature_step_seen:
  "merger_inv st \<Longrightarrow> snd (feature_step mn m st item) = insert item (snd st)"
  by (auto simp: feature_step_def Let_def)

lemma foldl_feature_step_seen:
  "merger_inv st \<Longrightarrow> snd (foldl (feature_step mn m) st items) = snd st \<union> set items"
proof (induction items arbitrary: st)
  case Nil
  then show ?case by simp
next
  case (Cons item rest)
  from Cons.IH[OF feature_step_inv[OF Cons.prems]] feature_step_seen[OF Cons.prems]
  show ?case by simp
qed

lemma foldl_feature_model_step_seen:
  "merger_inv st \<Longrightarrow>
     snd (foldl (feature_model_step ms mn ft) st names)
       = snd st \<union> set (concat (map (model_items ms ft) names))"
proof (induction names arbitrary: st)
  case Nil
  then show ?case by simp
next
  case (Cons name rest)
  have i: "merger_inv (feature_model_step ms mn ft st name)"
    by (rule feature_model_step_inv[OF Cons.prems])
  have s: "snd (feature_model_step ms mn ft st name) = snd st \<union> set (model_items ms ft name)"
    by (simp add: feature_model_step_items foldl_feature_step_seen[OF Cons.prems])
  from Cons.IH[OF i] s show ?case by (simp add: Un_assoc)
qed

text \<open>
  C8. The merged list never holds two entries with the same text: the texts of the output
  are pairwise distinct, they are exactly the item texts of the requested models, and so
  the number of distinct item texts is the length of the list. When an item's text is
  already among the texts of the entries, the merger step keeps the texts as they are (no
  entry is appended) and the entry with that text has the presence flag of the current
  model set.
\<close>

theorem merged_features_distinct:
  "distinct (map cf_text (process_feature_type ms mn ft))
   \<and> set (map cf_text (process_feature_type ms mn ft)) = set (merger_items ms mn ft)
   \<and> card (set (merger_items ms mn ft)) = length (process_feature_type ms mn ft)
   \<and> (item \<in> set (map cf_text fs) \<longrightarrow>
        map cf_text (fst (feature_step mn m (fs, set (map cf_text fs)) item)) = map cf_text fs
        \<and> (\<exists>f \<in> set (fst (feature_step mn m (fs, set (map cf_text fs)) item)).
              cf_text f = item \<and> map_of (cf_models f) m = Some True))"
proof -
  have i0: "merger_inv ([], {})" by (simp add: merger_inv_def)
  then have inv: "merger_inv (foldl (feature_model_step ms mn ft) ([], {}) mn)"
    by (rule foldl_feature_model_step_inv)
  then have d: "distinct (map cf_text (process_feature_type ms mn ft))"
    by (simp add: merger_inv_def process_feature_type_def)
  from inv foldl_feature_model_step_seen[OF i0, of ms mn ft mn]
  have s: "set (map cf_text (process_feature_type ms mn ft)) = set (merger_items ms mn ft)"
    by (simp add: merger_inv_def process_feature_type_def merger_items_def del: set_map set_concat)
  from d have "card (set (map cf_text (process_feature_type ms mn ft)))
                 = length (map cf_text (process_feature_type ms mn ft))"
    by (rule distinct_card)
  with s have c: "card (set (merger_items ms mn ft)) = length (process_feature_type ms mn ft)"
    by simp
  have f: "item \<in> set (map cf_text fs) \<longrightarrow>
        map cf_text (fst (feature_step mn m (fs, set (map cf_text fs)) item)) = map cf_text fs
        \<and> (\<exists>f \<in> set (fst (feature_step mn m (fs, set (map cf_text fs)) item)).
              cf_text f = item \<and> map_of (cf_models f) m = Some True)"
    using mark_present_flag[of item fs m]
    by (simp add: feature_step_def mark_present_texts del: set_map)
  from d s c f show ?thesis by blast
qed

theorem merged_features_distinct_witness:
  "process_feature_type
     [(''A'', features_doc (bullet @ '' Fast'' @ [CHR 0x0A] @ bullet @ '' Small'' @ [CHR 0x0A] @ ''and light'')),
      (''B'', features_doc (bullet @ '' Fast''))]
     [''A'', ''B''] ''features''
   = [\<lparr>cf_text = bullet @ '' Fast'', cf_models = [(''A'', True), (''B'', True)]\<rparr>,
      \<lparr>cf_text = bullet @ '' Small and light'', cf_models = [(''A'', True), (''B'', False)]\<rparr>]
   \<and> distinct (map cf_text (process_feature_type
        [(''A'', features_doc (bullet @ '' Fast'' @ [CHR 0x0A] @ bullet @ '' Small'' @ [CHR 0x0A] @ ''and light'')),
         (''B'', features_doc (bullet @ '' Fast''))]
        [''A'', ''B''] ''features''))
   \<and> merger_items
        [(''A'', features_doc (bullet @ '' Fast'' @ [CHR 0x0A] @ bullet @ '' Small'' @ [CHR 0x0A] @ ''and light'')),
         (''B'', features_doc (bullet @ '' Fast''))]
        [''A'', ''B''] ''features''
       = [bullet @ '' Fast'', bullet @ '' Small and light'', bullet @ '' Fast'']
   \<and> ''x'' \<in> set (map cf_text [\<lparr>cf_text = ''x'', cf_models = [(''A'', True), (''B'', False)]\<rparr>])
   \<and> map cf_text (fst (feature_step [''A'', ''B''] ''B''
         ([\<lparr>cf_text = ''x'', cf_models = [(''A'', True), (''B'', False)]\<rparr>],
          set (map cf_text [\<lparr>cf_text = ''x'', cf_models = [(''A'', True), (''B'', False)]\<rparr>])) ''x''))
       = map cf_text [\<lparr>cf_text = ''x'', cf_models = [(''A'', True), (''B'', False)]\<rparr>]"
proof -
  have v: "process_feature_type
     [(''A'', features_doc (bullet @ '' Fast'' @ [CHR 0x0A] @ bullet @ '' Small'' @ [CHR 0x0A] @ ''and light'')),
      (''B'', features_doc (bullet @ '' Fast''))]
     [''A'', ''B''] ''features''
   = [\<lparr>cf_text = bullet @ '' Fast'', cf_models = [(''A'', True), (''B'', True)]\<rparr>,
      \<lparr>cf_text = bullet @ '' Small and light'', cf_models = [(''A'', True), (''B'', False)]\<rparr>]"
    by code_simp
  have it: "merger_items
        [(''A'', features_doc (bullet @ '' Fast'' @ [CHR 0x0A] @ bullet @ '' Small'' @ [CHR 0x0A] @ ''and light'')),
         (''B'', features_doc (bullet @ '' Fast''))]
        [''A'', ''B''] ''features''
       = [bullet @ '' Fast'', bullet @ '' Small and light'', bullet @ '' Fast'']"
    by code_simp
  have m: "''x'' \<in> set (map cf_text [\<lparr>cf_text = ''x'', cf_models = [(''A'', True), (''B'', False)]\<rparr>])"
    by simp
  from merged_features_distinct[of
      "[(''A'', features_doc (bullet @ '' Fast'' @ [CHR 0x0A] @ bullet @ '' Small'' @ [CHR 0x0A] @ ''and light'')),
        (''B'', features_doc (bullet @ '' Fast''))]"
      "[''A'', ''B'']" "''features''" "''x''"
      "[\<lparr>cf_text = ''x'', cf_models = [(''A'', True), (''B'', False)]\<rparr>]" "''B''"]
    m v it
  show ?thesis by blast
qed

subsection \<open>Requested models only\<close>

lemma feature_model_step_cong:
  "map_of ms name = map_of ms' name \<Longrightarrow>
     feature_model_step ms mn ft st name = feature_model_step ms' mn ft st name"
  by (simp add: feature_model_step_def)

lemma scan_model_cong:
  "map_of ms name = map_of ms' name \<Longrightarrow> scan_model ms st name = scan_model ms' st name"
  by (simp add: scan_model_def)

lemma collect_values_cong:
  "\<forall>name \<in> set names. map_of ms name = map_of ms' name \<Longrightarrow>
     collect_values ms comb vals names = collect_values ms' comb vals names"
proof (induction names arbitrary: vals)
  case Nil
  then show ?case by simp
next
  case (Cons name rest)
  then have eq: "map_of ms name = map_of ms' name"
    and rest: "\<And>vals. collect_values ms comb vals rest = collect_values ms' comb vals rest"
    by simp_all
  show ?case by (simp only: collect_values.simps eq rest)
qed

lemma process_combinations_cong:
  "\<forall>name \<in> set mn. map_of ms name = map_of ms' name \<Longrightarrow>
     process_combinations B ms mn st combs = process_combinations B ms' mn st combs"
proof (induction combs arbitrary: st)
  case Nil
  then show ?case by simp
next
  case (Cons comb rest)
  have step: "process_combination B ms mn st comb = process_combination B ms' mn st comb"
    by (simp only: process_combination_def collect_values_cong[OF Cons.prems])
  show ?case by (simp only: process_combinations.simps step Cons.IH[OF Cons.prems])
qed

lemma requested_models_only:
  assumes "\<forall>name \<in> set mn. map_of ms name = map_of ms' name"
  shows "process_feature_type ms mn ft = process_feature_type ms' mn ft"
    and "process_specifications B ms mn = process_specifications B ms' mn"
proof -
  have "foldl (feature_model_step ms mn ft) ([], {}) mn
          = foldl (feature_model_step ms' mn ft) ([], {}) mn"
    by (rule foldl_cong[OF refl refl]) (simp add: feature_model_step_cong[of ms _ ms'] assms)
  then show "process_feature_type ms mn ft = process_feature_type ms' mn ft"
    by (simp add: process_feature_type_def)
  have "scan_models ms mn = scan_models ms' mn"
    unfolding scan_models_def
    by (rule foldl_cong[OF refl refl]) (simp add: scan_model_cong[of ms _ ms'] assms)
  then show "process_specifications B ms mn = process_specifications B ms' mn"
    by (simp only: process_specifications_def process_combinations_cong[OF assms])
qed

text \<open>
  C9. Only the entries of the models map under requested model numbers matter: two models
  maps that agree on every key of \<open>model_numbers\<close> give the same merged features (or
  advantages) and the same specifications and differences. In particular, storing a
  document under a key that is not requested changes nothing.
\<close>

theorem unrequested_models_ignored:
  assumes "\<forall>name \<in> set mn. map_of ms name = map_of ms' name"
  shows "process_feature_type ms mn ft = process_feature_type ms' mn ft
       \<and> process_specifications B ms mn = process_specifications B ms' mn
       \<and> (k \<notin> set mn \<longrightarrow>
            process_feature_type (AList.update k doc ms) mn ft = process_feature_type ms mn ft
            \<and> process_specifications B (AList.update k doc ms) mn = process_specifications B ms mn)"
proof -
  have upd: "process_feature_type (AList.update k doc ms) mn ft = process_feature_type ms mn ft
             \<and> process_specifications B (AList.update k doc ms) mn = process_specifications B ms mn"
    if "k \<notin> set mn"
  proof -
    from that have "\<forall>name \<in> set mn. map_of (AList.update k doc ms) name = map_of ms name"
      by (auto simp: update_conv')
    then show ?thesis
      using requested_models_only[of mn "AList.update k doc ms" ms] by simp
  qed
  show ?thesis
    using requested_models_only[OF assms] upd by simp
qed

theorem unrequested_models_ignored_witness:
  "map_of [(''A'', voltage_doc ''24''), (''B'', voltage_doc ''30'')] ''A''
     = map_of [(''A'', voltage_doc ''24''), (''B'', voltage_doc ''30''), (''520R'', voltage_doc ''99'')] ''A''
   \<and> map_of [(''A'', voltage_doc ''24''), (''B'', voltage_doc ''30'')] ''B''
     = map_of [(''A'', voltage_doc ''24''), (''B'', voltage_doc ''30''), (''520R'', voltage_doc ''99'')] ''B''
   \<and> process_feature_type [(''A'', voltage_doc ''24''), (''B'', voltage_doc ''30'')]
        [''A'', ''B''] ''features''
     = process_feature_type
        [(''A'', voltage_doc ''24''), (''B'', voltage_doc ''30''), (''520R'', voltage_doc ''99'')]
        [''A'', ''B''] ''features''
   \<and> process_specifications decimal_builtins
        [(''A'', voltage_doc ''24''), (''B'', voltage_doc ''30'')] [''A'', ''B'']
     = process_specifications decimal_builtins
        [(''A'', voltage_doc ''24''), (''B'', voltage_doc ''30''), (''520R'', voltage_doc ''99'')]
        [''A'', ''B'']
   \<and> collect_model_data (\<lambda>name. Some ((voltage_doc ''24'')\<lparr>model_number := Some ''520R''\<rparr>))
        [''HSR-520R''] = [(''520R'', (voltage_doc ''24'')\<lparr>model_number := Some ''520R''\<rparr>)]
   \<and> process_specifications decimal_builtins
        [(''520R'', (voltage_doc ''24'')\<lparr>model_number := Some ''520R''\<rparr>)] [''HSR-520R'']
     = Inr ([], [])"
proof -
  have a: "\<forall>name \<in> set [''A'', ''B''].
             map_of [(''A'', voltage_doc ''24''), (''B'', voltage_doc ''30'')] name
             = map_of [(''A'', voltage_doc ''24''), (''B'', voltage_doc ''30''),
                       (''520R'', voltage_doc ''99'')] name"
    by simp
  have c: "collect_model_data (\<lambda>name. Some ((voltage_doc ''24'')\<lparr>model_number := Some ''520R''\<rparr>))
        [''HSR-520R''] = [(''520R'', (voltage_doc ''24'')\<lparr>model_number := Some ''520R''\<rparr>)]"
    by code_simp
  have p: "process_specifications decimal_builtins
        [(''520R'', (voltage_doc ''24'')\<lparr>model_number := Some ''520R''\<rparr>)] [''HSR-520R'']
     = Inr ([], [])"
    by code_simp
  from unrequested_models_ignored[OF a, of "''features''" decimal_builtins] a c p
  show ?thesis by simp
qed

subsection \<open>The difference flag\<close>
















subsection \<open>Numeric differences\<close>














subsection \<open>Errors of the comparison call\<close>
















end
